theory Spec2Isabelle
  imports Main "HOL-Library.Multiset" "HOL-Library.Char_ord" "HOL-Library.List_Lexorder"
    "HOL-Library.Product_Lexorder"
begin

section \<open>Tabular datasets\<close>

text \<open>
  The two functions of \<^verbatim>\<open>src/main.py\<close> work on pandas DataFrames. A DataFrame is
  modelled as its ordered, typed column labels together with its rows. Three column types
  are covered: \<open>Int64\<close> (the dtype pandas gives a list of Python integers, a 64-bit signed
  integer, DuckDB's BIGINT), \<open>Object\<close> (an object column that holds strings, DuckDB's
  VARCHAR) and \<open>Datetime64\<close> (a column of timestamps, kept as their count of nanoseconds,
  DuckDB's TIMESTAMP). Integers are kept as \<open>int\<close>; the 64-bit range is written out in
  \<open>in_int64\<close> and checked wherever the engine checks it. Floating-point columns are
  outside the model, and so is an object column that holds something else than strings
  (the engine reads an object column of Python integers as BIGINT, like an \<open>Int64\<close>
  column).
\<close>

datatype dtype = Int64 | Object | Datetime64

datatype cell = IntV int | StrV string | TimeV int

record dataframe =
  columns :: "(string \<times> dtype) list"
  rows :: "cell list list"

datatype error = ValueError | CatalogError | BinderError | OutOfRangeError | InternalError

definition in_int64 :: "int \<Rightarrow> bool" where
  "in_int64 n = (- (2 ^ 63) \<le> n \<and> n < 2 ^ 63)"

fun has_dtype :: "cell \<Rightarrow> dtype \<Rightarrow> bool" where
  "has_dtype (IntV n) Int64 = in_int64 n"
| "has_dtype (StrV s) Object = True"
| "has_dtype (TimeV n) Datetime64 = in_int64 n"
| "has_dtype _ _ = False"

text \<open>
  A DataFrame is well formed when every row has one cell per column, of the column's type.
  pandas keeps this invariant by construction.
\<close>

definition wf_df :: "dataframe \<Rightarrow> bool" where
  "wf_df df = list_all (\<lambda>row. list_all2 has_dtype row (map snd (columns df))) (rows df)"

subsection \<open>The DataFrame constructor\<close>

text \<open>
  \<^verbatim>\<open>pd.DataFrame({"id": [...], "value": [...]})\<close> takes the columns as lists. pandas
  raises \<^verbatim>\<open>ValueError\<close> when the lists differ in length. A list of integers is taken
  to hold 64-bit values, as the literals of \<open>load_data\<close> do; pandas gives larger Python
  integers another dtype, which is outside the model.
\<close>

datatype column = IntList "int list" | StrList "string list"

fun column_dtype :: "column \<Rightarrow> dtype" where
  "column_dtype (IntList xs) = Int64"
| "column_dtype (StrList xs) = Object"

fun column_cells :: "column \<Rightarrow> cell list" where
  "column_cells (IntList xs) = map IntV xs"
| "column_cells (StrList xs) = map StrV xs"

definition DataFrame :: "(string \<times> column) list \<Rightarrow> error + dataframe" where
  "DataFrame cols =
     (let data = map (column_cells \<circ> snd) cols in
      if \<exists>a \<in> set data. \<exists>b \<in> set data. length a \<noteq> length b then Inl ValueError
      else Inr \<lparr>columns = map (\<lambda>(name, c). (name, column_dtype c)) cols,
                rows = transpose data\<rparr>)"

section \<open>load_data\<close>

text \<open>
  \<^verbatim>\<open>
  def load_data():
      df = pd.DataFrame({"id": [1,2,3,4], "value": [10,20,30,40]})
      return df
  \<close>
\<close>

definition load_data :: "error + dataframe" where
  "load_data = DataFrame [(''id'', IntList [1, 2, 3, 4]), (''value'', IntList [10, 20, 30, 40])]"

section \<open>The embedded query engine\<close>

text \<open>
  \<open>query_data\<close> hands the DataFrame to DuckDB and runs one SQL statement. The engine
  is modelled for the fragment of SQL the statement uses: column references, integer
  literals, multiplication, the comparison \<open>>=\<close>, a select list of columns and of
  expressions with an output name (\<open>AS\<close>), one table, a WHERE condition and
  ORDER BY ... DESC on one expression.
\<close>

datatype expr = Col string | IntLit int | Mul expr expr

datatype cond = GreaterEq expr expr

datatype select_item = Column string | Aliased expr string

fun item_expr :: "select_item \<Rightarrow> expr" where
  "item_expr (Column c) = Col c"
| "item_expr (Aliased e name) = e"

record query =
  select_list :: "select_item list"
  from_table :: string
  where_cond :: cond
  order_desc :: expr

text \<open>A connection holds the relations registered under a name; the newest one wins.\<close>

record connection =
  views :: "(string \<times> dataframe) list"

definition connect :: connection where
  "connect = \<lparr>views = []\<rparr>"

definition register :: "string \<Rightarrow> dataframe \<Rightarrow> connection \<Rightarrow> connection" where
  "register name df con = con\<lparr>views := (name, df) # views con\<rparr>"

subsection \<open>Identifiers\<close>

text \<open>
  DuckDB compares identifiers without regard to letter case and keeps the case of a
  column's label in the result: \<open>SELECT id\<close> finds a column labelled \<open>ID\<close>, and the
  output column is labelled \<open>ID\<close>. \<open>find_col\<close> gives the label and the type of the
  column an identifier is bound to: the column labelled as the identifier is written if
  there is one, otherwise the first column whose label agrees with it when case is
  ignored. For a frame in which two labels agree up to case the first alternative is
  the model's choice; \<open>distinct_labels\<close> says that a frame has no such labels.
\<close>

definition lower_char :: "char \<Rightarrow> char" where
  "lower_char c =
     (if CHR ''A'' \<le> c \<and> c \<le> CHR ''Z'' then char_of (of_char c + (32 :: nat)) else c)"

definition fold_case :: "string \<Rightarrow> string" where
  "fold_case s = map lower_char s"

definition find_col :: "(string \<times> dtype) list \<Rightarrow> string \<Rightarrow> (string \<times> dtype) option" where
  "find_col sch c =
     (case map_of sch c of
        Some t \<Rightarrow> Some (c, t)
      | None \<Rightarrow> List.find (\<lambda>p. fold_case (fst p) = fold_case c) sch)"

definition distinct_labels :: "dataframe \<Rightarrow> bool" where
  "distinct_labels df = distinct (map (fold_case \<circ> fst) (columns df))"

subsection \<open>Binding: names and types are checked before any row is read\<close>

text \<open>
  A column that the relation does not have, and an operator applied to operands it is not
  defined for, are binder errors. They are raised for the statement as a whole, also when
  the relation has no rows. A selected column keeps the label it has in the relation; an
  expression gets the name that follows \<open>AS\<close>.
\<close>

fun bind_expr :: "(string \<times> dtype) list \<Rightarrow> expr \<Rightarrow> error + dtype" where
  "bind_expr sch (Col c) =
     (case find_col sch c of None \<Rightarrow> Inl BinderError | Some (label, t) \<Rightarrow> Inr t)"
| "bind_expr sch (IntLit n) = Inr Int64"
| "bind_expr sch (Mul a b) =
     (case bind_expr sch a of Inl e \<Rightarrow> Inl e
      | Inr ta \<Rightarrow>
         (case bind_expr sch b of Inl e \<Rightarrow> Inl e
          | Inr tb \<Rightarrow> if ta = Int64 \<and> tb = Int64 then Inr Int64 else Inl BinderError))"

fun bind_cond :: "(string \<times> dtype) list \<Rightarrow> cond \<Rightarrow> error + unit" where
  "bind_cond sch (GreaterEq a b) =
     (case bind_expr sch a of Inl e \<Rightarrow> Inl e
      | Inr ta \<Rightarrow>
         (case bind_expr sch b of Inl e \<Rightarrow> Inl e
          | Inr tb \<Rightarrow> if ta = tb then Inr () else Inl BinderError))"

fun bind_item :: "(string \<times> dtype) list \<Rightarrow> select_item \<Rightarrow> error + (string \<times> dtype)" where
  "bind_item sch (Column c) =
     (case find_col sch c of None \<Rightarrow> Inl BinderError | Some (label, t) \<Rightarrow> Inr (label, t))"
| "bind_item sch (Aliased e name) =
     (case bind_expr sch e of Inl err \<Rightarrow> Inl err | Inr t \<Rightarrow> Inr (name, t))"

fun bind_select :: "(string \<times> dtype) list \<Rightarrow> select_item list \<Rightarrow> error + (string \<times> dtype) list" where
  "bind_select sch [] = Inr []"
| "bind_select sch (item # items) =
     (case bind_item sch item of Inl err \<Rightarrow> Inl err
      | Inr col \<Rightarrow>
         (case bind_select sch items of Inl err \<Rightarrow> Inl err
          | Inr out \<Rightarrow> Inr (col # out)))"

definition bind_query :: "(string \<times> dtype) list \<Rightarrow> query \<Rightarrow> error + (string \<times> dtype) list" where
  "bind_query sch q =
     (case bind_cond sch (where_cond q) of Inl e \<Rightarrow> Inl e
      | Inr u \<Rightarrow>
         (case bind_select sch (select_list q) of Inl e \<Rightarrow> Inl e
          | Inr out \<Rightarrow>
             (case bind_expr sch (order_desc q) of Inl e \<Rightarrow> Inl e
              | Inr t \<Rightarrow> Inr out)))"

subsection \<open>Evaluation on one row\<close>

text \<open>
  BIGINT arithmetic is checked: a product outside the 64-bit signed range is not wrapped,
  the engine raises an out-of-range error. Values are compared within their type; the
  key below orders integers and timestamps by value and strings bytewise. The binder
  admits a statement before any row is read, so evaluation meets a missing or ill-typed
  cell only on a frame that is not well formed; the model reports an internal error
  there.
\<close>

fun cell_key :: "cell \<Rightarrow> int \<times> string" where
  "cell_key (IntV n) = (n, [])"
| "cell_key (StrV s) = (0, s)"
| "cell_key (TimeV n) = (n, [])"

fun mul_cells :: "cell \<Rightarrow> cell \<Rightarrow> error + cell" where
  "mul_cells (IntV x) (IntV y) =
     (if in_int64 (x * y) then Inr (IntV (x * y)) else Inl OutOfRangeError)"
| "mul_cells _ _ = Inl InternalError"

fun eval_expr :: "(string \<rightharpoonup> cell) \<Rightarrow> expr \<Rightarrow> error + cell" where
  "eval_expr env (Col c) = (case env c of None \<Rightarrow> Inl InternalError | Some v \<Rightarrow> Inr v)"
| "eval_expr env (IntLit n) = Inr (IntV n)"
| "eval_expr env (Mul a b) =
     (case eval_expr env a of Inl e \<Rightarrow> Inl e
      | Inr x \<Rightarrow> (case eval_expr env b of Inl e \<Rightarrow> Inl e | Inr y \<Rightarrow> mul_cells x y))"

fun eval_cond :: "(string \<rightharpoonup> cell) \<Rightarrow> cond \<Rightarrow> error + bool" where
  "eval_cond env (GreaterEq a b) =
     (case eval_expr env a of Inl e \<Rightarrow> Inl e
      | Inr x \<Rightarrow>
         (case eval_expr env b of Inl e \<Rightarrow> Inl e
          | Inr y \<Rightarrow> Inr (cell_key y \<le> cell_key x)))"

text \<open>
  \<open>row_env\<close> reads a row by label. \<open>bound_env\<close> is what the engine reads: the cell of
  the column an identifier is bound to.
\<close>

definition row_env :: "dataframe \<Rightarrow> cell list \<Rightarrow> (string \<rightharpoonup> cell)" where
  "row_env t row = map_of (zip (map fst (columns t)) row)"

definition bound_env :: "dataframe \<Rightarrow> cell list \<Rightarrow> (string \<rightharpoonup> cell)" where
  "bound_env t row c =
     (case find_col (columns t) c of None \<Rightarrow> None | Some (label, ty) \<Rightarrow> row_env t row label)"

subsection \<open>Running a statement\<close>

text \<open>An error on any row aborts the statement: no partial result is produced.\<close>

fun traverse :: "('a \<Rightarrow> error + 'b) \<Rightarrow> 'a list \<Rightarrow> error + 'b list" where
  "traverse f [] = Inr []"
| "traverse f (x # xs) =
     (case f x of Inl e \<Rightarrow> Inl e
      | Inr y \<Rightarrow> (case traverse f xs of Inl e \<Rightarrow> Inl e | Inr ys \<Rightarrow> Inr (y # ys)))"

fun filter_rows :: "('a \<Rightarrow> error + bool) \<Rightarrow> 'a list \<Rightarrow> error + 'a list" where
  "filter_rows p [] = Inr []"
| "filter_rows p (x # xs) =
     (case p x of Inl e \<Rightarrow> Inl e
      | Inr b \<Rightarrow>
         (case filter_rows p xs of Inl e \<Rightarrow> Inl e
          | Inr ys \<Rightarrow> Inr (if b then x # ys else ys)))"

text \<open>A retained row becomes its sort key and its output cells.\<close>

definition project_row :: "query \<Rightarrow> (string \<rightharpoonup> cell) \<Rightarrow> error + (cell \<times> cell list)" where
  "project_row q env =
     (case eval_expr env (order_desc q) of Inl e \<Rightarrow> Inl e
      | Inr k \<Rightarrow>
         (case traverse (eval_expr env) (map item_expr (select_list q)) of Inl e \<Rightarrow> Inl e
          | Inr cs \<Rightarrow> Inr (k, cs)))"

text \<open>
  The engine's sorting routine is a parameter \<open>srt\<close> of the model: SQL fixes the order of
  the keys, not the order of rows with equal keys, and the source does not fix it either.
  A routine is admissible when it returns the rows it was given, rearranged so that the
  keys descend.
\<close>

type_synonym sorter = "(cell \<times> cell list) list \<Rightarrow> (cell \<times> cell list) list"

definition order_by_desc_ok :: "sorter \<Rightarrow> bool" where
  "order_by_desc_ok srt =
     (\<forall>xs. mset (srt xs) = mset xs
        \<and> sorted_wrt (\<lambda>a b. cell_key (fst b) \<le> cell_key (fst a)) (srt xs))"

text \<open>The rows of the relation, filtered and projected, before they are sorted.\<close>

definition run_rows :: "query \<Rightarrow> dataframe \<Rightarrow> error + (cell \<times> cell list) list" where
  "run_rows q t =
     (case filter_rows (\<lambda>row. eval_cond (bound_env t row) (where_cond q)) (rows t) of
        Inl e \<Rightarrow> Inl e
      | Inr kept \<Rightarrow> traverse (\<lambda>row. project_row q (bound_env t row)) kept)"

definition execute :: "sorter \<Rightarrow> query \<Rightarrow> connection \<Rightarrow> error + dataframe" where
  "execute srt q con =
     (case map_of (views con) (from_table q) of None \<Rightarrow> Inl CatalogError
      | Some t \<Rightarrow>
         (case bind_query (columns t) q of Inl e \<Rightarrow> Inl e
          | Inr sch \<Rightarrow>
             (case run_rows q t of Inl e \<Rightarrow> Inl e
              | Inr keyed \<Rightarrow> Inr \<lparr>columns = sch, rows = map snd (srt keyed)\<rparr>)))"

text \<open>Two admissible sorting routines. They differ on rows with equal keys.\<close>

definition desc_sort :: sorter where
  "desc_sort xs = rev (sort_key (cell_key \<circ> fst) xs)"


section \<open>query_data\<close>

text \<open>
  \<^verbatim>\<open>
  def query_data(df: pd.DataFrame):
      con = duckdb.connect()        # in-memory by default
      con.register("t", df)
      result = con.execute("SELECT id, value, value*2 AS value2 FROM t
                            WHERE value >= 20 ORDER BY id DESC").df()
      return result
  \<close>
  The SQL text is given as its syntax tree. The function has no handler: what the engine
  raises is what the caller gets. The connection is a local value of the call, and the
  sorting routine the engine uses in a call is an argument of the model: two calls need
  not meet the same routine.
\<close>

definition select_stmt :: query where
  "select_stmt =
     \<lparr>select_list = [Column ''id'', Column ''value'',
                     Aliased (Mul (Col ''value'') (IntLit 2)) ''value2''],
      from_table = ''t'',
      where_cond = GreaterEq (Col ''value'') (IntLit 20),
      order_desc = Col ''id''\<rparr>"

definition query_data :: "sorter \<Rightarrow> dataframe \<Rightarrow> error + dataframe" where
  "query_data srt df =
     (let con = connect;
          con = register ''t'' df con;
          result = execute srt select_stmt con
      in result)"

section \<open>Reading a frame\<close>

text \<open>
  The statements below read the \<open>id\<close> and \<open>value\<close> cells of a row by column name.
  \<open>spec_rows\<close> is the result as the specification words it: the rows with
  \<open>value >= 20\<close>, each as \<open>id\<close>, \<open>value\<close>, \<open>value * 2\<close>, in input order. It is
  compared with what \<open>query_data\<close> computes.
\<close>

fun int_of :: "cell option \<Rightarrow> int" where
  "int_of (Some (IntV n)) = n"
| "int_of _ = 0"

definition value_of :: "dataframe \<Rightarrow> cell list \<Rightarrow> int" where
  "value_of df row = int_of (row_env df row ''value'')"

definition id_of :: "dataframe \<Rightarrow> cell list \<Rightarrow> cell" where
  "id_of df row = (case row_env df row ''id'' of Some k \<Rightarrow> k | None \<Rightarrow> IntV 0)"

definition spec_row :: "dataframe \<Rightarrow> cell list \<Rightarrow> cell list" where
  "spec_row df row = [id_of df row, IntV (value_of df row), IntV (value_of df row * 2)]"

definition spec_rows :: "dataframe \<Rightarrow> cell list list" where
  "spec_rows df = map (spec_row df) (filter (\<lambda>row. 20 \<le> value_of df row) (rows df))"

text \<open>
  What the statement reads of a frame: the label and the type of the columns that \<open>id\<close>
  and \<open>value\<close> are bound to, and their cells.
\<close>

definition id_value_view ::
  "dataframe \<Rightarrow> (string \<times> dtype) option \<times> (string \<times> dtype) option
      \<times> (cell option \<times> cell option) list" where
  "id_value_view df =
     (find_col (columns df) ''id'', find_col (columns df) ''value'',
      map (\<lambda>row. (bound_env df row ''id'', bound_env df row ''value'')) (rows df))"

text \<open>The environment that holds just these two cells.\<close>

definition pair_env :: "cell option \<times> cell option \<Rightarrow> (string \<rightharpoonup> cell)" where
  "pair_env p = (\<lambda>c. if c = ''id'' then fst p else if c = ''value'' then snd p else None)"


section \<open>Example frames\<close>

text \<open>
  The scenarios of the specification and of \<^verbatim>\<open>tests/test_main.py\<close>, and the inputs
  at which statements are evaluated: the frame of \<open>load_data\<close> (scenario A), a frame
  below the threshold (scenario B), two rows at the threshold (scenario C), two rows with
  the same \<open>id\<close>, a value whose double leaves the 64-bit range, a frame without \<open>id\<close>,
  frames whose \<open>value\<close> column holds strings or timestamps, scenario A with labels in
  capital letters, and scenario A with a further column.
\<close>

definition scenario_a :: dataframe where
  "scenario_a = \<lparr>columns = [(''id'', Int64), (''value'', Int64)],
      rows = [[IntV 1, IntV 10], [IntV 2, IntV 20], [IntV 3, IntV 30], [IntV 4, IntV 40]]\<rparr>"

definition scenario_a_result :: dataframe where
  "scenario_a_result = \<lparr>columns = [(''id'', Int64), (''value'', Int64), (''value2'', Int64)],
      rows = [[IntV 4, IntV 40, IntV 80], [IntV 3, IntV 30, IntV 60], [IntV 2, IntV 20, IntV 40]]\<rparr>"




definition big_value :: dataframe where
  "big_value = \<lparr>columns = [(''id'', Int64), (''value'', Int64)],
      rows = [[IntV 1, IntV 4611686018427387904]]\<rparr>"






definition big_value_extra :: dataframe where
  "big_value_extra = \<lparr>columns = [(''id'', Int64), (''value'', Int64), (''note'', Object)],
      rows = [[IntV 1, IntV 4611686018427387904, StrV ''a'']]\<rparr>"

definition scenario_a_extra :: dataframe where
  "scenario_a_extra = \<lparr>columns = [(''note'', Object), (''id'', Int64), (''value'', Int64)],
      rows = [[StrV ''a'', IntV 1, IntV 10], [StrV ''b'', IntV 2, IntV 20],
              [StrV ''c'', IntV 3, IntV 30], [StrV ''d'', IntV 4, IntV 40]]\<rparr>"

section \<open>The statement on a well-formed frame\<close>

text \<open>
  On a well-formed frame with an \<open>id\<close> column and an Int64 \<open>value\<close> column every
  step of \<open>execute\<close> can be computed: the binder accepts the statement, the filter keeps
  the rows with \<open>value >= 20\<close>, and the projection fails exactly when the double of a
  retained value leaves the 64-bit range.
\<close>

lemma map_of_zip_typed:
  "list_all2 P row (map snd cols) \<Longrightarrow> map_of cols c = Some t
   \<Longrightarrow> \<exists>x. map_of (zip (map fst cols) row) c = Some x \<and> P x t"
proof (induction cols arbitrary: row)
  case Nil
  then show ?case by simp
next
  case (Cons a cols)
  then obtain x xs where row: "row = x # xs" and px: "P x (snd a)"
    and rest: "list_all2 P xs (map snd cols)"
    by (auto simp: list_all2_Cons2)
  show ?case
  proof (cases "fst a = c")
    case True
    with Cons.prems(2) have "snd a = t" by (cases a) auto
    with True px row show ?thesis by simp
  next
    case False
    with Cons.prems(2) have "map_of cols c = Some t" by (cases a) auto
    from Cons.IH[OF rest this] False row show ?thesis by simp
  qed
qed

lemma traverse_all_Inr:
  "(\<forall>x \<in> set xs. f x = Inr (g x)) \<Longrightarrow> traverse f xs = Inr (map g xs)"
  by (induction xs) simp_all

lemma traverse_some_Inl:
  "(\<forall>x \<in> set xs. f x = Inr (g x) \<or> f x = Inl e) \<Longrightarrow> (\<exists>x \<in> set xs. f x = Inl e)
   \<Longrightarrow> traverse f xs = Inl e"
proof (induction xs)
  case Nil
  then show ?case by simp
next
  case (Cons a xs)
  show ?case
  proof (cases "f a")
    case (Inl e')
    with Cons.prems(1) show ?thesis by auto
  next
    case (Inr y)
    with Cons.prems have "\<exists>x \<in> set xs. f x = Inl e" by auto
    moreover from Cons.prems(1) have "\<forall>x \<in> set xs. f x = Inr (g x) \<or> f x = Inl e" by simp
    ultimately have "traverse f xs = Inl e" by (rule Cons.IH[rotated])
    with Inr show ?thesis by simp
  qed
qed

lemma filter_rows_all_Inr:
  "(\<forall>x \<in> set xs. p x = Inr (P x)) \<Longrightarrow> filter_rows p xs = Inr (filter P xs)"
  by (induction xs) simp_all

lemma wf_row_cell:
  assumes "wf_df df" "row \<in> set (rows df)" "map_of (columns df) c = Some t"
  shows "\<exists>x. row_env df row c = Some x \<and> has_dtype x t"
proof -
  from assms(1,2) have "list_all2 has_dtype row (map snd (columns df))"
    by (simp add: wf_df_def list_all_iff)
  from map_of_zip_typed[OF this assms(3)] show ?thesis by (simp add: row_env_def)
qed

lemma has_dtype_Int64: "has_dtype x Int64 \<Longrightarrow> \<exists>n. x = IntV n \<and> in_int64 n"
  by (cases x) simp_all

lemma find_col_exact: "map_of sch c = Some t \<Longrightarrow> find_col sch c = Some (c, t)"
  by (simp add: find_col_def)

lemma bound_env_exact: "map_of (columns t) c = Some ty \<Longrightarrow> bound_env t row c = row_env t row c"
  by (simp add: bound_env_def find_col_exact)

lemma bind_query_select_stmt:
  "map_of sch ''id'' = Some t \<Longrightarrow> map_of sch ''value'' = Some Int64
   \<Longrightarrow> bind_query sch select_stmt = Inr [(''id'', t), (''value'', Int64), (''value2'', Int64)]"
  by (simp add: bind_query_def select_stmt_def find_col_exact)

lemma eval_where_select_stmt:
  "env ''value'' = Some (IntV v) \<Longrightarrow> eval_cond env (where_cond select_stmt) = Inr (20 \<le> v)"
  by (auto simp: select_stmt_def)

lemma project_row_select_stmt:
  "env ''id'' = Some k \<Longrightarrow> env ''value'' = Some (IntV v)
   \<Longrightarrow> project_row select_stmt env =
       (if in_int64 (v * 2) then Inr (k, [k, IntV v, IntV (v * 2)]) else Inl OutOfRangeError)"
  by (simp add: project_row_def select_stmt_def)

lemma query_data_char:
  assumes wf: "wf_df df"
    and idc: "map_of (columns df) ''id'' = Some t"
    and valc: "map_of (columns df) ''value'' = Some Int64"
  shows "query_data srt df =
     (if list_all (\<lambda>row. in_int64 (value_of df row * 2))
           (filter (\<lambda>row. 20 \<le> value_of df row) (rows df))
      then Inr \<lparr>columns = [(''id'', t), (''value'', Int64), (''value2'', Int64)],
                rows = map snd (srt (map (\<lambda>row. (id_of df row, spec_row df row))
                         (filter (\<lambda>row. 20 \<le> value_of df row) (rows df))))\<rparr>
      else Inl OutOfRangeError)"
proof -
  let ?kept = "filter (\<lambda>row. 20 \<le> value_of df row) (rows df)"
  have cells: "\<exists>k v. row_env df row ''id'' = Some k \<and> row_env df row ''value'' = Some (IntV v)"
    if "row \<in> set (rows df)" for row
  proof -
    from wf_row_cell[OF wf that idc] obtain k where "row_env df row ''id'' = Some k" by blast
    moreover from wf_row_cell[OF wf that valc] obtain x
      where "row_env df row ''value'' = Some x" "has_dtype x Int64" by blast
    ultimately show ?thesis using has_dtype_Int64 by blast
  qed
  note env = bound_env_exact[OF idc] bound_env_exact[OF valc]
  have flt: "filter_rows (\<lambda>row. eval_cond (bound_env df row) (where_cond select_stmt)) (rows df)
      = Inr ?kept"
  proof (rule filter_rows_all_Inr, rule ballI)
    fix row assume "row \<in> set (rows df)"
    from cells[OF this] obtain k v where "row_env df row ''value'' = Some (IntV v)" by blast
    then show "eval_cond (bound_env df row) (where_cond select_stmt) = Inr (20 \<le> value_of df row)"
      by (simp add: eval_where_select_stmt value_of_def env)
  qed
  have prj: "project_row select_stmt (bound_env df row) =
      (if in_int64 (value_of df row * 2) then Inr (id_of df row, spec_row df row)
       else Inl OutOfRangeError)" if "row \<in> set (rows df)" for row
  proof -
    from cells[OF that] obtain k v
      where "row_env df row ''id'' = Some k" "row_env df row ''value'' = Some (IntV v)" by blast
    then show ?thesis
      by (simp add: project_row_select_stmt value_of_def id_of_def spec_row_def env)
  qed
  have run: "traverse (\<lambda>row. project_row select_stmt (bound_env df row)) ?kept =
      (if list_all (\<lambda>row. in_int64 (value_of df row * 2)) ?kept
       then Inr (map (\<lambda>row. (id_of df row, spec_row df row)) ?kept)
       else Inl OutOfRangeError)"
  proof (cases "list_all (\<lambda>row. in_int64 (value_of df row * 2)) ?kept")
    case True
    then have "\<forall>row \<in> set ?kept. project_row select_stmt (bound_env df row)
        = Inr (id_of df row, spec_row df row)"
      using prj by (auto simp: list_all_iff)
    from traverse_all_Inr[OF this] True show ?thesis by simp
  next
    case False
    have "\<forall>row \<in> set ?kept. project_row select_stmt (bound_env df row)
        = Inr (id_of df row, spec_row df row)
        \<or> project_row select_stmt (bound_env df row) = Inl OutOfRangeError"
      using prj by auto
    moreover from False have "\<exists>row \<in> set ?kept.
        project_row select_stmt (bound_env df row) = Inl OutOfRangeError"
      using prj by (auto simp: list_all_iff)
    ultimately have "traverse (\<lambda>row. project_row select_stmt (bound_env df row)) ?kept
        = Inl OutOfRangeError" by (rule traverse_some_Inl)
    with False show ?thesis by simp
  qed
  have "run_rows select_stmt df =
      (if list_all (\<lambda>row. in_int64 (value_of df row * 2)) ?kept
       then Inr (map (\<lambda>row. (id_of df row, spec_row df row)) ?kept)
       else Inl OutOfRangeError)"
    by (simp add: run_rows_def flt run)
  moreover have "from_table select_stmt = ''t''" by (simp add: select_stmt_def)
  ultimately show ?thesis
    by (simp add: query_data_def execute_def connect_def register_def
        bind_query_select_stmt[OF idc valc])
qed



section \<open>Admissible sorting routines\<close>

text \<open>
  Both routines of the model are admissible, and on rows with pairwise different keys
  every admissible routine returns the same list.
\<close>

lemma srt_mset: "order_by_desc_ok srt \<Longrightarrow> mset (srt xs) = mset xs"
  by (simp add: order_by_desc_ok_def)

lemma srt_sorted:
  "order_by_desc_ok srt \<Longrightarrow> sorted_wrt (\<lambda>a b. cell_key (fst b) \<le> cell_key (fst a)) (srt xs)"
  by (simp add: order_by_desc_ok_def)

lemma srt_set: "order_by_desc_ok srt \<Longrightarrow> set (srt xs) = set xs"
  by (metis srt_mset set_mset_mset)



lemma desc_sort_ok: "order_by_desc_ok desc_sort"
  unfolding order_by_desc_ok_def desc_sort_def
proof (intro allI conjI)
  fix xs :: "(cell \<times> cell list) list"
  show "mset (rev (sort_key (cell_key \<circ> fst) xs)) = mset xs" by simp
  have "sorted (map (cell_key \<circ> fst) (sort_key (cell_key \<circ> fst) xs))" by (rule sorted_sort_key)
  then show "sorted_wrt (\<lambda>a b. cell_key (fst b) \<le> cell_key (fst a)) (rev (sort_key (cell_key \<circ> fst) xs))"
    by (simp add: sorted_wrt_rev sorted_wrt_map)
qed



section \<open>What a successful call returns\<close>

lemma query_data_success:
  assumes ok: "order_by_desc_ok srt" and wf: "wf_df df"
    and idc: "map_of (columns df) ''id'' = Some t"
    and valc: "map_of (columns df) ''value'' = Some Int64"
    and res: "query_data srt df = Inr out"
  shows "columns out = [(''id'', t), (''value'', Int64), (''value2'', Int64)]"
    and "mset (rows out) = mset (spec_rows df)"
    and "sorted_wrt (\<lambda>a b. cell_key (hd b) \<le> cell_key (hd a)) (rows out)"
    and "list_all (\<lambda>row. in_int64 (value_of df row * 2))
           (filter (\<lambda>row. 20 \<le> value_of df row) (rows df))"
proof -
  let ?kept = "filter (\<lambda>row. 20 \<le> value_of df row) (rows df)"
  let ?L = "map (\<lambda>row. (id_of df row, spec_row df row)) ?kept"
  from res query_data_char[OF wf idc valc, of srt]
  have fit: "list_all (\<lambda>row. in_int64 (value_of df row * 2)) ?kept"
    and out: "out = \<lparr>columns = [(''id'', t), (''value'', Int64), (''value2'', Int64)],
        rows = map snd (srt ?L)\<rparr>"
    by (auto split: if_splits)
  from fit show "list_all (\<lambda>row. in_int64 (value_of df row * 2)) ?kept" .
  from out show "columns out = [(''id'', t), (''value'', Int64), (''value2'', Int64)]" by simp
  have "image_mset snd (mset (srt ?L)) = image_mset snd (mset ?L)"
    by (simp only: srt_mset[OF ok])
  then have "mset (map snd (srt ?L)) = mset (map snd ?L)"
    by (simp only: mset_map)
  with out show "mset (rows out) = mset (spec_rows df)"
    by (simp add: spec_rows_def comp_def)
  have "sorted_wrt (\<lambda>a b. cell_key (hd (snd b)) \<le> cell_key (hd (snd a))) (srt ?L)"
  proof (rule sorted_wrt_mono_rel[OF _ srt_sorted[OF ok]])
    fix a b assume "a \<in> set (srt ?L)" "b \<in> set (srt ?L)"
      and le: "cell_key (fst b) \<le> cell_key (fst a)"
    then have "hd (snd a) = fst a" "hd (snd b) = fst b"
      by (auto simp: srt_set[OF ok] spec_row_def)
    with le show "cell_key (hd (snd b)) \<le> cell_key (hd (snd a))" by simp
  qed
  with out show "sorted_wrt (\<lambda>a b. cell_key (hd b) \<le> cell_key (hd a)) (rows out)"
    by (simp add: sorted_wrt_map)
qed




lemma query_data_succeeds:
  assumes ok: "order_by_desc_ok srt" and wf: "wf_df df"
    and idc: "map_of (columns df) ''id'' = Some t"
    and valc: "map_of (columns df) ''value'' = Some Int64"
    and fit: "\<forall>row \<in> set (rows df). 20 \<le> value_of df row \<longrightarrow> in_int64 (value_of df row * 2)"
  shows "\<exists>out. query_data srt df = Inr out"
proof -
  from fit have "list_all (\<lambda>row. in_int64 (value_of df row * 2))
      (filter (\<lambda>row. 20 \<le> value_of df row) (rows df))"
    by (simp add: list_all_iff)
  with query_data_char[OF wf idc valc, of srt] show ?thesis by simp
qed

section \<open>The statement reads two columns only\<close>

lemma filter_rows_view:
  "map_sum id (map h) (filter_rows (\<lambda>x. P (h x)) xs) = filter_rows P (map h xs)"
  by (induction xs) (auto split: sum.splits)

lemma traverse_view: "traverse (\<lambda>x. F (h x)) xs = traverse F (map h xs)"
  by (induction xs) (auto split: sum.splits)

lemma eval_where_view:
  "eval_cond env (where_cond select_stmt)
     = eval_cond (pair_env (env ''id'', env ''value'')) (where_cond select_stmt)"
  by (cases "env ''value''") (simp_all add: select_stmt_def pair_env_def)

lemma project_row_view:
  "project_row select_stmt env = project_row select_stmt (pair_env (env ''id'', env ''value''))"
  by (cases "env ''id''"; cases "env ''value''")
     (simp_all add: select_stmt_def project_row_def pair_env_def
        cong: sum.case_cong option.case_cong)

lemma run_rows_view:
  fixes df :: dataframe
  defines "h \<equiv> \<lambda>row. (bound_env df row ''id'', bound_env df row ''value'')"
  shows "run_rows select_stmt df
       = (case filter_rows (\<lambda>p. eval_cond (pair_env p) (where_cond select_stmt))
                 (map h (rows df)) of
            Inl e \<Rightarrow> Inl e
          | Inr kept \<Rightarrow> traverse (\<lambda>p. project_row select_stmt (pair_env p)) kept)"
proof -
  let ?P = "\<lambda>p. eval_cond (pair_env p) (where_cond select_stmt)"
  let ?F = "\<lambda>p. project_row select_stmt (pair_env p)"
  have p: "(\<lambda>row. eval_cond (bound_env df row) (where_cond select_stmt)) = (\<lambda>row. ?P (h row))"
    by (rule ext) (simp add: h_def eval_where_view[symmetric])
  have f: "(\<lambda>row. project_row select_stmt (bound_env df row)) = (\<lambda>row. ?F (h row))"
    by (rule ext) (simp add: h_def project_row_view[symmetric])
  have fv: "filter_rows ?P (map h (rows df))
      = map_sum id (map h) (filter_rows (\<lambda>row. ?P (h row)) (rows df))"
    by (rule filter_rows_view[of h ?P "rows df", symmetric])
  show ?thesis
    unfolding run_rows_def p f fv
    by (cases "filter_rows (\<lambda>row. ?P (h row)) (rows df)") (simp_all add: traverse_view[of ?F h])
qed

lemma bind_query_cases:
  "bind_query sch select_stmt =
     (case find_col sch ''id'' of None \<Rightarrow> Inl BinderError
      | Some (id_label, id_type) \<Rightarrow>
         (case find_col sch ''value'' of None \<Rightarrow> Inl BinderError
          | Some (value_label, value_type) \<Rightarrow>
             if value_type = Int64
             then Inr [(id_label, id_type), (value_label, Int64), (''value2'', Int64)]
             else Inl BinderError))"
  by (auto simp: bind_query_def select_stmt_def split: option.splits prod.splits dtype.splits)

lemma bind_query_view:
  assumes "find_col sch ''id'' = find_col sch' ''id''"
    and "find_col sch ''value'' = find_col sch' ''value''"
  shows "bind_query sch select_stmt = bind_query sch' select_stmt"
  unfolding bind_query_cases assms ..



lemma query_data_unsorted:
  "query_data srt df =
     (case bind_query (columns df) select_stmt of Inl e \<Rightarrow> Inl e
      | Inr sch \<Rightarrow>
         (case run_rows select_stmt df of Inl e \<Rightarrow> Inl e
          | Inr keyed \<Rightarrow> Inr \<lparr>columns = sch, rows = map snd (srt keyed)\<rparr>))"
proof -
  have "from_table select_stmt = ''t''" by (simp add: select_stmt_def)
  then show ?thesis by (simp add: query_data_def execute_def register_def connect_def)
qed

lemma query_data_view:
  assumes "id_value_view df = id_value_view df'"
  shows "query_data srt df = query_data srt df'"
proof -
  from assms have c: "find_col (columns df) ''id'' = find_col (columns df') ''id''"
    "find_col (columns df) ''value'' = find_col (columns df') ''value''"
    and r: "map (\<lambda>row. (bound_env df row ''id'', bound_env df row ''value'')) (rows df)
      = map (\<lambda>row. (bound_env df' row ''id'', bound_env df' row ''value'')) (rows df')"
    by (simp_all add: id_value_view_def)
  have b: "bind_query (columns df) select_stmt = bind_query (columns df') select_stmt"
    by (rule bind_query_view[OF c])
  have run: "run_rows select_stmt df = run_rows select_stmt df'"
    unfolding run_rows_view r ..
  show ?thesis unfolding query_data_unsorted b run ..
qed

section \<open>Two calls, two sorting routines\<close>



section \<open>The example frames\<close>



lemma scenario_a_run: "query_data desc_sort scenario_a = Inr scenario_a_result"
  by code_simp






lemma scenario_a_extra_valid:
  "wf_df scenario_a_extra" "map_of (columns scenario_a_extra) ''id'' = Some Int64"
  "map_of (columns scenario_a_extra) ''value'' = Some Int64"
  "\<forall>row \<in> set (rows scenario_a_extra). 20 \<le> value_of scenario_a_extra row
     \<longrightarrow> in_int64 (value_of scenario_a_extra row * 2)"
  by (simp_all add: scenario_a_extra_def wf_df_def in_int64_def value_of_def row_env_def)

section \<open>The claims\<close>

subsection \<open>C1: the result of query_data\<close>




subsection \<open>C2: load_data\<close>

text \<open>
  Claim C2. \<open>load_data\<close> takes no argument and cannot fail: the constructor accepts
  the two literal lists (they have the same length), and the DataFrame it returns has the
  columns \<open>id\<close>, \<open>value\<close> in this order, both of type Int64, and exactly the four rows
  (1, 10), (2, 20), (3, 30), (4, 40) in this order. The model is a constant, so every call
  returns this same value.
\<close>

theorem load_data_returns:
  "load_data = Inr \<lparr>columns = [(''id'', Int64), (''value'', Int64)],
      rows = [[IntV 1, IntV 10], [IntV 2, IntV 20], [IntV 3, IntV 30], [IntV 4, IntV 40]]\<rparr>"
  by (simp add: load_data_def DataFrame_def)

subsection \<open>C3: every returned value is at least 20\<close>



subsection \<open>C4: value2 is the exact double\<close>



subsection \<open>C5: the result is ordered by id, descending\<close>



subsection \<open>C6: an empty result is not an error\<close>



subsection \<open>C7: schema errors, and no partial result\<close>




subsection \<open>C8: the input is not mutated\<close>

text \<open>
  Claim C8 is about the identity and the mutation of Python objects: that the libraries
  leave the DataFrame object they are given as it is, and that the result is another
  object. \<open>query_data\<close> itself has no statement that writes to \<open>df\<close>; what
  \<^verbatim>\<open>con.register\<close>, \<^verbatim>\<open>con.execute\<close> and \<^verbatim>\<open>.df()\<close> do to the memory of the object is
  decided inside pandas and DuckDB. In this embedding a frame is a value, a function
  cannot change its argument, and a statement of the claim would hold for any engine
  whatever. No theorem is given for it.
\<close>

subsection \<open>C9: two calls give the same result, up to the order of ties\<close>




subsection \<open>C10: other columns are ignored\<close>

text \<open>
  Claim C10, as amended. Let \<open>df\<close> and \<open>df'\<close> be frames whose labels differ also when
  letter case is ignored, with the same \<open>id\<close> and \<open>value\<close> columns and any other columns.
  Then \<open>query_data\<close> has the same outcome on both, whether it returns or raises: the
  other columns have no effect on the rows retained, on \<open>value2\<close> or on the order, and
  they are not part of the result. If \<open>df\<close> is moreover well formed with an Int64
  \<open>value\<close> column, and \<open>value * 2\<close> fits the 64-bit signed type for every row with
  \<open>value >= 20\<close>, then the call succeeds and the result has exactly the columns \<open>id\<close>,
  \<open>value\<close>, \<open>value2\<close>.
\<close>

theorem query_data_ignores_other_columns:
  "(distinct_labels df \<and> distinct_labels df' \<and> id_value_view df' = id_value_view df
     \<longrightarrow> query_data srt df' = query_data srt df)
   \<and> (order_by_desc_ok srt \<and> wf_df df \<and> distinct_labels df
        \<and> map_of (columns df) ''id'' = Some t \<and> map_of (columns df) ''value'' = Some Int64
        \<and> (\<forall>row \<in> set (rows df). 20 \<le> value_of df row \<longrightarrow> in_int64 (value_of df row * 2))
     \<longrightarrow> (\<exists>out. query_data srt df = Inr out
            \<and> columns out = [(''id'', t), (''value'', Int64), (''value2'', Int64)]))"
proof (intro conjI impI)
  assume "distinct_labels df \<and> distinct_labels df' \<and> id_value_view df' = id_value_view df"
  then have "id_value_view df' = id_value_view df" by simp
  then show "query_data srt df' = query_data srt df" by (rule query_data_view)
next
  assume a: "order_by_desc_ok srt \<and> wf_df df \<and> distinct_labels df
        \<and> map_of (columns df) ''id'' = Some t \<and> map_of (columns df) ''value'' = Some Int64
        \<and> (\<forall>row \<in> set (rows df). 20 \<le> value_of df row \<longrightarrow> in_int64 (value_of df row * 2))"
  then have ok: "order_by_desc_ok srt" and wf: "wf_df df"
    and idc: "map_of (columns df) ''id'' = Some t"
    and valc: "map_of (columns df) ''value'' = Some Int64"
    and fit: "\<forall>row \<in> set (rows df). 20 \<le> value_of df row \<longrightarrow> in_int64 (value_of df row * 2)"
    by simp_all
  from query_data_succeeds[OF ok wf idc valc fit] obtain out
    where res: "query_data srt df = Inr out" ..
  from res query_data_success(1)[OF ok wf idc valc res]
  show "\<exists>out. query_data srt df = Inr out
            \<and> columns out = [(''id'', t), (''value'', Int64), (''value2'', Int64)]"
    by simp
qed

text \<open>
  The theorem at scenario A with a further column of strings in front, and at the frame
  with a further column whose retained value cannot be doubled: it raises like the frame
  without the further column.
\<close>

theorem query_data_ignores_other_columns_witness:
  "distinct_labels scenario_a_extra \<and> distinct_labels scenario_a
   \<and> id_value_view scenario_a = id_value_view scenario_a_extra
   \<and> query_data desc_sort scenario_a = query_data desc_sort scenario_a_extra
   \<and> order_by_desc_ok desc_sort \<and> wf_df scenario_a_extra
   \<and> map_of (columns scenario_a_extra) ''id'' = Some Int64
   \<and> map_of (columns scenario_a_extra) ''value'' = Some Int64
   \<and> list_all (\<lambda>row. in_int64 (value_of scenario_a_extra row * 2))
        (filter (\<lambda>row. 20 \<le> value_of scenario_a_extra row) (rows scenario_a_extra))
   \<and> query_data desc_sort scenario_a_extra = Inr scenario_a_result
   \<and> distinct_labels big_value_extra \<and> distinct_labels big_value
   \<and> id_value_view big_value = id_value_view big_value_extra
   \<and> query_data desc_sort big_value = query_data desc_sort big_value_extra"
proof -
  have dl: "distinct_labels scenario_a_extra" "distinct_labels scenario_a"
    "distinct_labels big_value_extra" "distinct_labels big_value"
    by (simp_all add: distinct_labels_def scenario_a_extra_def scenario_a_def
        big_value_extra_def big_value_def fold_case_def lower_char_def)
  have v: "id_value_view scenario_a = id_value_view scenario_a_extra"
    "id_value_view big_value = id_value_view big_value_extra"
    by (simp_all add: id_value_view_def scenario_a_def scenario_a_extra_def big_value_def
        big_value_extra_def bound_env_def find_col_def row_env_def)
  have f: "list_all (\<lambda>row. in_int64 (value_of scenario_a_extra row * 2))
        (filter (\<lambda>row. 20 \<le> value_of scenario_a_extra row) (rows scenario_a_extra))"
    by (simp add: scenario_a_extra_def in_int64_def value_of_def row_env_def)
  have "distinct_labels scenario_a_extra \<and> distinct_labels scenario_a
      \<and> id_value_view scenario_a = id_value_view scenario_a_extra
    \<longrightarrow> query_data desc_sort scenario_a = query_data desc_sort scenario_a_extra"
    by (rule conjunct1[OF query_data_ignores_other_columns])
  with dl v have 1: "query_data desc_sort scenario_a = query_data desc_sort scenario_a_extra"
    by simp
  have "distinct_labels big_value_extra \<and> distinct_labels big_value
      \<and> id_value_view big_value = id_value_view big_value_extra
    \<longrightarrow> query_data desc_sort big_value = query_data desc_sort big_value_extra"
    by (rule conjunct1[OF query_data_ignores_other_columns])
  with dl v have 2: "query_data desc_sort big_value = query_data desc_sort big_value_extra"
    by simp
  from 1 2 scenario_a_run v f dl desc_sort_ok scenario_a_extra_valid(1-3) show ?thesis by simp
qed

text \<open>
  The claim as first stated promises success for every frame with the columns \<open>id\<close> and
  \<open>value\<close> and further columns. It fails on the frame with the columns \<open>id\<close>, \<open>value\<close>
  and \<open>note\<close> and the row (1, 2^62, a): the engine raises its out-of-range error.
\<close>

theorem query_data_extra_column_overflow_counterexample:
  "order_by_desc_ok desc_sort \<and> wf_df big_value_extra
   \<and> map_of (columns big_value_extra) ''id'' = Some Int64
   \<and> map_of (columns big_value_extra) ''value'' = Some Int64
   \<and> map_of (columns big_value_extra) ''note'' = Some Object
   \<and> query_data desc_sort big_value_extra = Inl OutOfRangeError"
proof -
  have "wf_df big_value_extra" by (simp add: big_value_extra_def wf_df_def in_int64_def)
  moreover have "query_data desc_sort big_value_extra = Inl OutOfRangeError" by code_simp
  ultimately show ?thesis using desc_sort_ok by (simp add: big_value_extra_def)
qed

end
